theory Spec2Isabelle
  imports Complex_Main "HOL-Library.Sublist" "HOL-Library.Multiset"
begin

section \<open>The MP3 trimming script \<^verbatim>\<open>trim_audio.py\<close>\<close>

text \<open>
  The script lists the directory \<^verbatim>\<open>music\<close>, and for every entry whose name passes a
  filter it decodes the file, keeps the first 20 seconds, writes the result over the
  file and reads the new size back. It keeps two lists of names and prints a summary.

  The file system and the codec (the \<^verbatim>\<open>os\<close> module and the pydub library) are not part
  of the script. They are the fields of an environment \<open>E\<close> over a world \<open>'w\<close>, and every
  theorem below holds for every environment. What a call raises is a value of
  \<open>exn\<close>: the exceptions of class \<^verbatim>\<open>Exception\<close>, which is what the handler of the script
  names.
\<close>

subsection \<open>Strings\<close>

text \<open>\<^verbatim>\<open>str.startswith\<close> and \<^verbatim>\<open>str.endswith\<close> with one string argument.\<close>

definition startswith :: "string \<Rightarrow> string \<Rightarrow> bool" where
  "startswith s p = (take (length p) s = p)"

definition endswith :: "string \<Rightarrow> string \<Rightarrow> bool" where
  "endswith s p = (length p \<le> length s \<and> drop (length s - length p) s = p)"

text \<open>\<^verbatim>\<open>str(n)\<close> for an integer that is a length: decimal digits, no sign.\<close>

definition str_digit :: "nat \<Rightarrow> char" where
  "str_digit d = ''0123456789'' ! d"

fun str_nat :: "nat \<Rightarrow> string" where
  "str_nat n = (if n < 10 then [str_digit n] else str_nat (n div 10) @ [str_digit (n mod 10)])"

declare str_nat.simps [simp del]

text \<open>
  \<^verbatim>\<open>os.path.join\<close> with two components, as \<^verbatim>\<open>posixpath\<close> has it: an absolute second
  component replaces the first, and a separator is added unless the first is empty or
  ends with one.
\<close>

definition path_join :: "string \<Rightarrow> string \<Rightarrow> string" where
  "path_join a b =
     (if startswith b ''/'' then b
      else if a = [] \<or> endswith a ''/'' then a @ b
      else a @ ''/'' @ b)"

subsection \<open>Constants of the script\<close>

definition music_dir :: string where
  "music_dir = ''music''"

definition trim_duration :: nat where
  "trim_duration = 20 * 1000"

subsection \<open>Audio buffers, exceptions, the environment\<close>

text \<open>
  An \<^verbatim>\<open>AudioSegment\<close> is a sequence addressed in milliseconds: \<^verbatim>\<open>len(audio)\<close> is its
  length in milliseconds and \<^verbatim>\<open>audio[:n]\<close> is a slice of it. It is a list with one element
  per millisecond, so \<^verbatim>\<open>len\<close> is \<open>length\<close> and the slice \<^verbatim>\<open>[:n]\<close> with \<open>n \<ge> 0\<close> is \<open>take n\<close>,
  as for every Python sequence.
\<close>

type_synonym 's AudioSegment = "'s list"

text \<open>An exception with its message, \<^verbatim>\<open>str(e)\<close>.\<close>

datatype exn = Exception string

fun str_exn :: "exn \<Rightarrow> string" where
  "str_exn (Exception msg) = msg"

text \<open>
  The calls the script makes. Decoding and exporting return the world they leave
  behind, also when they raise (an export that fails may have written part of the
  file). Listing a directory and asking a size only read the world.
\<close>

record ('w, 's) env =
  listdir :: "'w \<Rightarrow> string \<Rightarrow> exn + string list"
  from_mp3 :: "'w \<Rightarrow> string \<Rightarrow> (exn + 's AudioSegment) \<times> 'w"
  export :: "'w \<Rightarrow> 's AudioSegment \<Rightarrow> string \<Rightarrow> string \<Rightarrow> string \<Rightarrow> (exn + unit) \<times> 'w"
  getsize :: "'w \<Rightarrow> string \<Rightarrow> exn + nat"

subsection \<open>Standard output\<close>

text \<open>
  One value per call of \<^verbatim>\<open>print\<close>. A line without a formatted float is its text. The
  three lines that format a float (\<^verbatim>\<open>:.1f\<close>, \<^verbatim>\<open>:.2f\<close>) carry the number that is
  formatted, as an exact quotient: \<^verbatim>\<open>len(audio) / 1000\<close> and
  \<^verbatim>\<open>os.path.getsize(filepath) / 1024 / 1024\<close>.
\<close>

datatype out =
    Text string
  | Original_duration rat
  | New_duration rat
  | New_file_size rat

text \<open>The check mark and the cross of the two result lines, in UTF-8.\<close>

definition check_mark :: string where
  "check_mark = [CHR 0xE2, CHR 0x9C, CHR 0x93]"

definition cross_mark :: string where
  "cross_mark = [CHR 0xE2, CHR 0x9C, CHR 0x97]"

subsection \<open>The body of the \<^verbatim>\<open>try\<close> statement\<close>

text \<open>\<^verbatim>\<open>trimmed_audio = audio[:trim_duration]\<close>\<close>

definition trim :: "'s AudioSegment \<Rightarrow> 's AudioSegment" where
  "trim audio = take trim_duration audio"

text \<open>
  Lines 36 to 55 for one path: the world afterwards, the lines printed, and the
  exception that left the body, if one did. The name is appended to a list by the
  caller.
\<close>

definition trim_file :: "('w, 's) env \<Rightarrow> string \<Rightarrow> 'w \<Rightarrow> 'w \<times> out list \<times> exn option" where
  "trim_file E filepath w =
     (case from_mp3 E w filepath of
        (Inl e, w1) \<Rightarrow> (w1, [], Some e)
      | (Inr audio, w1) \<Rightarrow>
          (let original_duration = rat_of_nat (length audio) / 1000;
               o1 = [Original_duration original_duration];
               trimmed_audio = trim audio
           in case export E w1 trimmed_audio filepath ''mp3'' ''192k'' of
                (Inl e, w2) \<Rightarrow> (w2, o1, Some e)
              | (Inr u, w2) \<Rightarrow>
                  (let new_duration = rat_of_nat (length trimmed_audio) / 1000;
                       o2 = o1 @ [New_duration new_duration]
                   in case getsize E w2 filepath of
                        Inl e \<Rightarrow> (w2, o2, Some e)
                      | Inr sz \<Rightarrow>
                          (let file_size = rat_of_nat sz / 1024 / 1024
                           in (w2,
                               o2 @ [New_file_size file_size,
                                     Text (''  '' @ check_mark @ '' Successfully trimmed!'')],
                               None)))))"

subsection \<open>The loop over the listing\<close>

record 'w run =
  world :: 'w
  stdout :: "out list"
  files_processed :: "string list"
  files_failed :: "string list"

text \<open>The filter of line 30.\<close>

definition eligible :: "string \<Rightarrow> bool" where
  "eligible filename = (endswith filename ''.mp3'' \<and> \<not> startswith filename ''temp_'')"

text \<open>One iteration of the \<^verbatim>\<open>for\<close> loop, lines 30 to 61.\<close>

definition step :: "('w, 's) env \<Rightarrow> 'w run \<Rightarrow> string \<Rightarrow> 'w run" where
  "step E st filename =
     (if eligible filename then
        (let filepath = path_join music_dir filename;
             o0 = stdout st @ [Text (''\<newline>Processing: '' @ filename)]
         in case trim_file E filepath (world st) of
              (w', os, None) \<Rightarrow>
                st\<lparr>world := w', stdout := o0 @ os,
                   files_processed := files_processed st @ [filename]\<rparr>
            | (w', os, Some e) \<Rightarrow>
                st\<lparr>world := w',
                   stdout := o0 @ os @ [Text (''  '' @ cross_mark @ '' Error: '' @ str_exn e)],
                   files_failed := files_failed st @ [filename]\<rparr>)
      else st)"

fun scan :: "('w, 's) env \<Rightarrow> 'w run \<Rightarrow> string list \<Rightarrow> 'w run" where
  "scan E st [] = st"
| "scan E st (filename # rest) = scan E (step E st filename) rest"

subsection \<open>The summary and the whole program\<close>

text \<open>The two loops of lines 70 and 75.\<close>

fun print_names :: "string list \<Rightarrow> out list" where
  "print_names [] = []"
| "print_names (f # fs) = Text (''    - '' @ f) # print_names fs"

definition summary :: "string list \<Rightarrow> string list \<Rightarrow> out list" where
  "summary processed failed =
     [Text (''\<newline>'' @ replicate 50 CHR ''=''),
      Text ''\<newline>Summary:'',
      Text (''  Successfully processed: '' @ str_nat (length processed)),
      Text (''  Failed: '' @ str_nat (length failed))]
     @ (if processed \<noteq> [] then Text ''\<newline>  Trimmed files:'' # print_names processed else [])
     @ (if failed \<noteq> [] then Text ''\<newline>  Failed files:'' # print_names failed else [])
     @ [Text ''\<newline>Done!'']"

text \<open>
  How a run ends: \<^verbatim>\<open>sys.exit\<close> with a status, an exception nothing catches, or the
  last line of the script.
\<close>

datatype 'w outcome =
    Exit nat "out list" 'w
  | Uncaught exn "out list" 'w
  | Finished "'w run"

definition banner :: "out list" where
  "banner = [Text ''Trimming MP3 files to 20 seconds...'', Text (replicate 50 CHR ''='')]"

text \<open>
  The script from its first line. \<open>pydub_installed\<close> says whether
  \<^verbatim>\<open>from pydub import AudioSegment\<close> succeeds.
\<close>

definition main :: "bool \<Rightarrow> ('w, 's) env \<Rightarrow> 'w \<Rightarrow> 'w outcome" where
  "main pydub_installed E w =
     (if \<not> pydub_installed then
        Exit 1 [Text ''ERROR: pydub not installed'',
                Text ''Install with: pip install pydub''] w
      else
        (case listdir E w music_dir of
           Inl e \<Rightarrow> Uncaught e banner w
         | Inr names \<Rightarrow>
             (let st = scan E \<lparr>world = w, stdout = banner,
                                files_processed = [], files_failed = []\<rparr> names
              in Finished (st\<lparr>stdout := stdout st
                                @ summary (files_processed st) (files_failed st)\<rparr>))))"

subsection \<open>A directory to run the script on\<close>

text \<open>
  A world is a list of paths with their decoded content, newest first. Decoding looks
  the path up and fails when it is not there, exporting puts the buffer in front, and a
  file has 24 bytes per millisecond (192 kbit/s). The listing is that of the directory
  \<^verbatim>\<open>music\<close>: two songs of 30 and 10 seconds, a name with no file that decodes behind
  it, a temporary file and a text file.
\<close>

type_synonym disk = "(string \<times> nat list) list"

definition demo_env :: "string list \<Rightarrow> (disk, nat) env" where
  "demo_env names =
     \<lparr>listdir = (\<lambda>w d. if d = ''music'' then Inr names
                        else Inl (Exception ''No such file or directory'')),
      from_mp3 = (\<lambda>w p. case map_of w p of
                            None \<Rightarrow> (Inl (Exception ''decoding failed''), w)
                          | Some a \<Rightarrow> (Inr a, w)),
      export = (\<lambda>w a p fmt bitrate. (Inr (), (p, a) # w)),
      getsize = (\<lambda>w p. case map_of w p of
                           None \<Rightarrow> Inl (Exception ''No such file or directory'')
                         | Some a \<Rightarrow> Inr (24 * length a))\<rparr>"

definition demo_names :: "string list" where
  "demo_names = [''song1.mp3'', ''bad.mp3'', ''song2.mp3'', ''temp_draft.mp3'', ''notes.txt'']"

definition demo_disk :: disk where
  "demo_disk = [(''music/song1.mp3'', replicate 30000 0), (''music/song2.mp3'', replicate 10000 0),
                (''music/temp_draft.mp3'', replicate 30000 0)]"

section \<open>Properties\<close>

subsection \<open>Auxiliary facts\<close>

lemma startswith_prefix: "startswith s p \<longleftrightarrow> prefix p s"
  by (metis startswith_def prefix_def append_eq_conv_conj append_take_drop_id)

lemma endswith_suffix: "endswith s p \<longleftrightarrow> suffix p s"
  unfolding endswith_def suffix_def
  by (metis append_eq_conv_conj append_take_drop_id length_append diff_add_inverse2 le_add2 length_drop)

lemma demo_eligible:
  "eligible ''song1.mp3''" "eligible ''bad.mp3''" "eligible ''song2.mp3''"
  "\<not> eligible ''temp_draft.mp3''" "\<not> eligible ''notes.txt''"
  by (simp_all add: eligible_def endswith_def startswith_def)

lemma demo_paths:
  "path_join music_dir ''song1.mp3'' = ''music/song1.mp3''"
  "path_join music_dir ''song2.mp3'' = ''music/song2.mp3''"
  "path_join music_dir ''bad.mp3'' = ''music/bad.mp3''"
  by (simp_all add: path_join_def music_dir_def endswith_def startswith_def)

lemma step_not_eligible: "\<not> eligible f \<Longrightarrow> step E st f = st"
  by (simp add: step_def)

lemma step_ok:
  "eligible f \<Longrightarrow> trim_file E (path_join music_dir f) (world st) = (w', os, None) \<Longrightarrow>
   step E st f = st\<lparr>world := w', stdout := stdout st @ [Text (''\<newline>Processing: '' @ f)] @ os,
                     files_processed := files_processed st @ [f]\<rparr>"
  by (simp add: step_def)

lemma step_err:
  "eligible f \<Longrightarrow> trim_file E (path_join music_dir f) (world st) = (w', os, Some e) \<Longrightarrow>
   step E st f = st\<lparr>world := w',
       stdout := stdout st @ [Text (''\<newline>Processing: '' @ f)] @ os
                 @ [Text (''  '' @ cross_mark @ '' Error: '' @ str_exn e)],
       files_failed := files_failed st @ [f]\<rparr>"
  by (simp add: step_def)

lemma step_lists:
  "eligible f \<Longrightarrow>
     (files_processed (step E st f) = files_processed st @ [f] \<and>
      files_failed (step E st f) = files_failed st) \<or>
     (files_processed (step E st f) = files_processed st \<and>
      files_failed (step E st f) = files_failed st @ [f])"
proof -
  assume el: "eligible f"
  obtain w' os r where t: "trim_file E (path_join music_dir f) (world st) = (w', os, r)"
    by (metis prod_cases3)
  show ?thesis
  proof (cases r)
    case None
    with el t show ?thesis by (simp add: step_ok)
  next
    case (Some e)
    with el t show ?thesis by (simp add: step_err)
  qed
qed

lemma scan_append: "scan E st (xs @ ys) = scan E (scan E st xs) ys"
  by (induction xs arbitrary: st) simp_all

lemma scan_mset:
  "mset (files_processed (scan E st xs)) + mset (files_failed (scan E st xs)) =
   mset (files_processed st) + mset (files_failed st) + mset (filter eligible xs)"
proof (induction xs arbitrary: st)
  case Nil
  show ?case by simp
next
  case (Cons f fs)
  show ?case
  proof (cases "eligible f")
    case True
    from True step_lists [OF True, of E st] show ?thesis
      by (auto simp: Cons.IH)
  next
    case False
    then show ?thesis by (simp add: Cons.IH step_not_eligible)
  qed
qed

lemma demo_trim1:
  "trim_file (demo_env ns) ''music/song1.mp3'' demo_disk =
     ((''music/song1.mp3'', replicate 20000 0) # demo_disk,
      [Original_duration 30, New_duration 20, New_file_size (480000 / 1024 / 1024),
       Text (''  '' @ check_mark @ '' Successfully trimmed!'')], None)"
  by (simp add: trim_file_def demo_env_def demo_disk_def trim_def trim_duration_def)

lemma trim_file_decode_raises:
  "from_mp3 E w p = (Inl e, w1) \<Longrightarrow> trim_file E p w = (w1, [], Some e)"
  by (simp add: trim_file_def)

lemma trim_file_export_raises:
  "from_mp3 E w p = (Inr a, w1) \<Longrightarrow> export E w1 (trim a) p ''mp3'' ''192k'' = (Inl e, w2) \<Longrightarrow>
   trim_file E p w = (w2, [Original_duration (rat_of_nat (length a) / 1000)], Some e)"
  by (simp add: trim_file_def)

lemma trim_file_getsize_raises:
  "from_mp3 E w p = (Inr a, w1) \<Longrightarrow> export E w1 (trim a) p ''mp3'' ''192k'' = (Inr u, w2) \<Longrightarrow>
   getsize E w2 p = Inl e \<Longrightarrow>
   trim_file E p w =
     (w2, [Original_duration (rat_of_nat (length a) / 1000),
           New_duration (rat_of_nat (length (trim a)) / 1000)], Some e)"
  by (simp add: trim_file_def)

lemma trim_file_succeeds:
  "from_mp3 E w p = (Inr a, w1) \<Longrightarrow> export E w1 (trim a) p ''mp3'' ''192k'' = (Inr u, w2) \<Longrightarrow>
   getsize E w2 p = Inr sz \<Longrightarrow>
   trim_file E p w =
     (w2, [Original_duration (rat_of_nat (length a) / 1000),
           New_duration (rat_of_nat (length (trim a)) / 1000),
           New_file_size (rat_of_nat sz / 1024 / 1024),
           Text (''  '' @ check_mark @ '' Successfully trimmed!'')], None)"
  by (simp add: trim_file_def)

lemma trim_file_None_iff:
  "snd (snd (trim_file E p w)) = None \<longleftrightarrow>
     (\<exists>a w1 w2 sz. from_mp3 E w p = (Inr a, w1) \<and>
        export E w1 (trim a) p ''mp3'' ''192k'' = (Inr (), w2) \<and> getsize E w2 p = Inr sz)"
  by (auto simp: trim_file_def Let_def split: prod.splits sum.splits)

lemma trim_file_Some_iff:
  "snd (snd (trim_file E p w)) = Some e \<longleftrightarrow>
     (\<exists>w1. from_mp3 E w p = (Inl e, w1)) \<or>
     (\<exists>a w1 w2. from_mp3 E w p = (Inr a, w1) \<and>
        export E w1 (trim a) p ''mp3'' ''192k'' = (Inl e, w2)) \<or>
     (\<exists>a w1 w2. from_mp3 E w p = (Inr a, w1) \<and>
        export E w1 (trim a) p ''mp3'' ''192k'' = (Inr (), w2) \<and> getsize E w2 p = Inl e)"
  by (auto simp: trim_file_def Let_def split: prod.splits sum.splits)

lemma length_trim: "length (trim a) = min (length a) 20000"
  by (simp add: trim_def trim_duration_def min.commute)

lemma print_names_map: "print_names fs = map (\<lambda>f. Text (''    - '' @ f)) fs"
  by (induction fs) simp_all

lemma step_extends:
  "\<exists>ps fs. files_processed (step E st f) = files_processed st @ ps \<and>
           files_failed (step E st f) = files_failed st @ fs \<and>
           subseq ps [f] \<and> subseq fs [f]"
proof (cases "eligible f")
  case True
  from step_lists [OF True, of E st] show ?thesis
    by (elim disjE) auto
next
  case False
  then show ?thesis by (simp add: step_not_eligible)
qed

lemma scan_extends:
  "\<exists>ps fs. files_processed (scan E st xs) = files_processed st @ ps \<and>
           files_failed (scan E st xs) = files_failed st @ fs \<and>
           subseq ps xs \<and> subseq fs xs"
proof (induction xs arbitrary: st)
  case Nil
  show ?case by simp
next
  case (Cons x xs)
  obtain p1 f1 where s1: "files_processed (step E st x) = files_processed st @ p1"
    "files_failed (step E st x) = files_failed st @ f1" "subseq p1 [x]" "subseq f1 [x]"
    using step_extends [of E st x] by blast
  obtain p2 f2 where s2: "files_processed (scan E (step E st x) xs) = files_processed (step E st x) @ p2"
    "files_failed (scan E (step E st x) xs) = files_failed (step E st x) @ f2" "subseq p2 xs" "subseq f2 xs"
    using Cons.IH [of "step E st x"] by blast
  have "subseq (p1 @ p2) ([x] @ xs)"
    using s1(3) s2(3) by (rule list_emb_append_mono)
  moreover have "subseq (f1 @ f2) ([x] @ xs)"
    using s1(4) s2(4) by (rule list_emb_append_mono)
  ultimately show ?case using s1 s2 by auto
qed

lemma demo_listdir: "listdir (demo_env ns) w music_dir = Inr ns"
  by (simp add: demo_env_def music_dir_def)

lemma eligible_iff: "eligible f \<longleftrightarrow> suffix ''.mp3'' f \<and> \<not> prefix ''temp_'' f"
  by (simp add: eligible_def endswith_suffix startswith_prefix)

lemma main_finishes:
  "listdir E w music_dir = Inr names \<Longrightarrow>
   main True E w =
     Finished ((scan E \<lparr>world = w, stdout = banner, files_processed = [], files_failed = []\<rparr> names)
       \<lparr>stdout := stdout (scan E \<lparr>world = w, stdout = banner, files_processed = [], files_failed = []\<rparr> names)
          @ summary (files_processed (scan E \<lparr>world = w, stdout = banner, files_processed = [], files_failed = []\<rparr> names))
                    (files_failed (scan E \<lparr>world = w, stdout = banner, files_processed = [], files_failed = []\<rparr> names))\<rparr>)"
  by (simp add: main_def Let_def)

lemma scan_snoc: "scan E st (xs @ [f]) = step E (scan E st xs) f"
  by (simp add: scan_append)

lemma scan_keeps_failed: "set (files_failed st) \<subseteq> set (files_failed (scan E st xs))"
  using scan_extends [of E st xs] by auto

lemma scan_keeps_processed: "set (files_processed st) \<subseteq> set (files_processed (scan E st xs))"
  using scan_extends [of E st xs] by auto

lemma step_raises:
  assumes "eligible f" and "snd (snd (trim_file E (path_join music_dir f) (world st))) = Some e"
  shows "files_failed (step E st f) = files_failed st @ [f]"
    and "files_processed (step E st f) = files_processed st"
    and "world (step E st f) = fst (trim_file E (path_join music_dir f) (world st))"
    and "last (stdout (step E st f)) = Text (''  '' @ cross_mark @ '' Error: '' @ str_exn e)"
proof -
  obtain w' os where t: "trim_file E (path_join music_dir f) (world st) = (w', os, Some e)"
    using assms(2) by (metis prod.collapse)
  note s = step_err [OF assms(1) t]
  show "files_failed (step E st f) = files_failed st @ [f]" by (simp add: s)
  show "files_processed (step E st f) = files_processed st" by (simp add: s)
  show "world (step E st f) = fst (trim_file E (path_join music_dir f) (world st))"
    by (simp add: s t)
  show "last (stdout (step E st f)) = Text (''  '' @ cross_mark @ '' Error: '' @ str_exn e)"
    by (simp add: s)
qed

lemma step_no_exception:
  assumes "eligible f" and "snd (snd (trim_file E (path_join music_dir f) (world st))) = None"
  shows "files_processed (step E st f) = files_processed st @ [f]"
    and "files_failed (step E st f) = files_failed st"
    and "world (step E st f) = fst (trim_file E (path_join music_dir f) (world st))"
proof -
  obtain w' os where t: "trim_file E (path_join music_dir f) (world st) = (w', os, None)"
    using assms(2) by (metis prod.collapse)
  note s = step_ok [OF assms(1) t]
  show "files_processed (step E st f) = files_processed st @ [f]" by (simp add: s)
  show "files_failed (step E st f) = files_failed st" by (simp add: s)
  show "world (step E st f) = fst (trim_file E (path_join music_dir f) (world st))"
    by (simp add: s t)
qed

text \<open>The run on the directory of the example, one iteration at a time.\<close>

lemma demo_step1:
  "step (demo_env ns) \<lparr>world = demo_disk, stdout = banner, files_processed = [], files_failed = []\<rparr>
     ''song1.mp3'' =
   \<lparr>world = (''music/song1.mp3'', replicate 20000 0) # demo_disk,
    stdout = banner @
      [Text ''\<newline>Processing: song1.mp3'', Original_duration 30, New_duration 20,
       New_file_size (480000 / 1024 / 1024),
       Text (''  '' @ check_mark @ '' Successfully trimmed!'')],
    files_processed = [''song1.mp3''], files_failed = []\<rparr>"
  by (simp add: step_ok [OF demo_eligible(1)] demo_paths demo_trim1)

lemma demo_trim_bad:
  "trim_file (demo_env ns) ''music/bad.mp3'' ((''music/song1.mp3'', replicate 20000 0) # demo_disk) =
     ((''music/song1.mp3'', replicate 20000 0) # demo_disk, [], Some (Exception ''decoding failed''))"
  by (simp add: trim_file_def demo_env_def demo_disk_def)

lemma demo_step2:
  "step (demo_env ns)
     \<lparr>world = (''music/song1.mp3'', replicate 20000 0) # demo_disk,
      stdout = banner @
        [Text ''\<newline>Processing: song1.mp3'', Original_duration 30, New_duration 20,
         New_file_size (480000 / 1024 / 1024),
         Text (''  '' @ check_mark @ '' Successfully trimmed!'')],
      files_processed = [''song1.mp3''], files_failed = []\<rparr>
     ''bad.mp3'' =
   \<lparr>world = (''music/song1.mp3'', replicate 20000 0) # demo_disk,
    stdout = banner @
      [Text ''\<newline>Processing: song1.mp3'', Original_duration 30, New_duration 20,
       New_file_size (480000 / 1024 / 1024),
       Text (''  '' @ check_mark @ '' Successfully trimmed!''),
       Text ''\<newline>Processing: bad.mp3'',
       Text (''  '' @ cross_mark @ '' Error: decoding failed'')],
    files_processed = [''song1.mp3''], files_failed = [''bad.mp3'']\<rparr>"
  by (simp add: step_err [OF demo_eligible(2)] demo_paths demo_trim_bad)

lemma demo_trim2:
  "trim_file (demo_env ns) ''music/song2.mp3'' ((''music/song1.mp3'', replicate 20000 0) # demo_disk) =
     ((''music/song2.mp3'', replicate 10000 0) # (''music/song1.mp3'', replicate 20000 0) # demo_disk,
      [Original_duration 10, New_duration 10, New_file_size (240000 / 1024 / 1024),
       Text (''  '' @ check_mark @ '' Successfully trimmed!'')], None)"
  by (simp add: trim_file_def demo_env_def demo_disk_def trim_def trim_duration_def)

lemma demo_step3:
  "step (demo_env ns)
     \<lparr>world = (''music/song1.mp3'', replicate 20000 0) # demo_disk,
      stdout = banner @
        [Text ''\<newline>Processing: song1.mp3'', Original_duration 30, New_duration 20,
         New_file_size (480000 / 1024 / 1024),
         Text (''  '' @ check_mark @ '' Successfully trimmed!''),
         Text ''\<newline>Processing: bad.mp3'',
         Text (''  '' @ cross_mark @ '' Error: decoding failed'')],
      files_processed = [''song1.mp3''], files_failed = [''bad.mp3'']\<rparr>
     ''song2.mp3'' =
   \<lparr>world = (''music/song2.mp3'', replicate 10000 0) # (''music/song1.mp3'', replicate 20000 0) # demo_disk,
    stdout = banner @
      [Text ''\<newline>Processing: song1.mp3'', Original_duration 30, New_duration 20,
       New_file_size (480000 / 1024 / 1024),
       Text (''  '' @ check_mark @ '' Successfully trimmed!''),
       Text ''\<newline>Processing: bad.mp3'',
       Text (''  '' @ cross_mark @ '' Error: decoding failed''),
       Text ''\<newline>Processing: song2.mp3'', Original_duration 10, New_duration 10,
       New_file_size (240000 / 1024 / 1024),
       Text (''  '' @ check_mark @ '' Successfully trimmed!'')],
    files_processed = [''song1.mp3'', ''song2.mp3''], files_failed = [''bad.mp3'']\<rparr>"
  by (simp add: step_ok [OF demo_eligible(3)] demo_paths demo_trim2)

lemma demo_scan:
  "scan (demo_env ns) \<lparr>world = demo_disk, stdout = banner, files_processed = [], files_failed = []\<rparr>
     demo_names =
   \<lparr>world = (''music/song2.mp3'', replicate 10000 0) # (''music/song1.mp3'', replicate 20000 0) # demo_disk,
    stdout = banner @
      [Text ''\<newline>Processing: song1.mp3'', Original_duration 30, New_duration 20,
       New_file_size (480000 / 1024 / 1024),
       Text (''  '' @ check_mark @ '' Successfully trimmed!''),
       Text ''\<newline>Processing: bad.mp3'',
       Text (''  '' @ cross_mark @ '' Error: decoding failed''),
       Text ''\<newline>Processing: song2.mp3'', Original_duration 10, New_duration 10,
       New_file_size (240000 / 1024 / 1024),
       Text (''  '' @ check_mark @ '' Successfully trimmed!'')],
    files_processed = [''song1.mp3'', ''song2.mp3''], files_failed = [''bad.mp3'']\<rparr>"
  by (simp only: demo_names_def scan.simps demo_step1 demo_step2 demo_step3
        step_not_eligible [OF demo_eligible(4)] step_not_eligible [OF demo_eligible(5)])

lemma trim_file_exported:
  "from_mp3 E w p = (Inr a, w1) \<Longrightarrow> export E w1 (trim a) p ''mp3'' ''192k'' = (Inr u, w2) \<Longrightarrow>
   fst (snd (trim_file E p w)) =
     Original_duration (rat_of_nat (length a) / 1000) #
     New_duration (rat_of_nat (length (trim a)) / 1000) #
     (case getsize E w2 p of
        Inl e \<Rightarrow> []
      | Inr sz \<Rightarrow> [New_file_size (rat_of_nat sz / 1024 / 1024),
                   Text (''  '' @ check_mark @ '' Successfully trimmed!'')])"
  by (simp add: trim_file_def Let_def split: sum.splits)

lemma capped_distance:
  fixes m n :: nat
  assumes "m \<le> 20000"
  shows "\<bar>rat_of_nat (min n 20000) / 1000 - rat_of_nat m / 1000\<bar>
           \<le> \<bar>rat_of_nat n / 1000 - rat_of_nat m / 1000\<bar>"
proof (cases "n \<le> 20000")
  case True
  then show ?thesis by (simp add: min_def)
next
  case False
  then have "rat_of_nat 20000 \<le> rat_of_nat n" by (simp only: of_nat_le_iff)
  moreover from assms have "rat_of_nat m \<le> rat_of_nat 20000" by (simp only: of_nat_le_iff)
  moreover from False have "min n 20000 = 20000" by simp
  ultimately show ?thesis by simp
qed

text \<open>\<open>str_nat\<close> writes the decimal digits of its argument: reading them back gives the number.\<close>

lemma str_digit_value: "d < 10 \<Longrightarrow> of_char (str_digit d) = 48 + d"
proof -
  assume "d < 10"
  then have "d \<in> {0, 1, 2, 3, 4, 5, 6, 7, 8, 9}" by auto
  then show ?thesis by (auto simp: str_digit_def)
qed

lemma str_nat_decimal:
  "foldl (\<lambda>acc c. 10 * acc + (of_char c - 48)) 0 (str_nat n) = n"
proof (induction n rule: str_nat.induct)
  case (1 n)
  show ?case
  proof (cases "n < 10")
    case True
    then show ?thesis by (subst str_nat.simps) (simp add: str_digit_value)
  next
    case False
    with 1 show ?thesis
      by (subst str_nat.simps) (simp add: str_digit_value)
  qed
qed

subsection \<open>The guard on the import\<close>

text \<open>
  C5. When pydub cannot be imported, the program prints the fixed diagnostic and the
  installation hint and exits with status 1; it lists no directory and changes no
  file: the world is the one it started in, whatever the environment does.
\<close>

theorem pydub_missing_exits:
  "main False E w =
     Exit 1 [Text ''ERROR: pydub not installed'', Text ''Install with: pip install pydub''] w"
  by (simp add: main_def)

subsection \<open>Which entries are processed\<close>

text \<open>
  C1. When the directory can be listed, the run finishes, and the names in the two
  lists together are exactly the names of the listing that end with \<^verbatim>\<open>.mp3\<close> and do
  not start with \<^verbatim>\<open>temp_\<close> (\<open>suffix\<close> and \<open>prefix\<close> on the characters, so the case
  matters). The decision is a function of the name alone, and an iteration on any other
  name leaves the whole state as it was: nothing is decoded, printed or recorded.
\<close>

theorem eligibility_filter:
  assumes "listdir E w music_dir = Inr names"
  shows "\<exists>st. main True E w = Finished st \<and>
           set (files_processed st) \<union> set (files_failed st) =
             {f \<in> set names. suffix ''.mp3'' f \<and> \<not> prefix ''temp_'' f} \<and>
           (\<forall>st' f. \<not> (suffix ''.mp3'' f \<and> \<not> prefix ''temp_'' f) \<longrightarrow> step E st' f = st')"
proof -
  let ?st0 = "scan E \<lparr>world = w, stdout = banner, files_processed = [], files_failed = []\<rparr> names"
  note el = eligible_iff
  have "mset (files_processed ?st0) + mset (files_failed ?st0) = mset (filter eligible names)"
    by (simp add: scan_mset)
  then have "set_mset (mset (files_processed ?st0) + mset (files_failed ?st0)) =
             set_mset (mset (filter eligible names))"
    by simp
  then have "set (files_processed ?st0) \<union> set (files_failed ?st0) = {f \<in> set names. eligible f}"
    by simp
  moreover have "\<forall>st' f. \<not> eligible f \<longrightarrow> step E st' f = st'"
    by (simp add: step_not_eligible)
  ultimately show ?thesis
    using main_finishes [OF assms] by (simp add: el)
qed

text \<open>The directory of the example: the three names that pass are in the lists.\<close>

theorem eligibility_filter_witness:
  "listdir (demo_env demo_names) demo_disk music_dir = Inr demo_names \<and>
   (\<exists>st. main True (demo_env demo_names) demo_disk = Finished st \<and>
      set (files_processed st) \<union> set (files_failed st) = {''song1.mp3'', ''bad.mp3'', ''song2.mp3''})"
proof -
  have h: "listdir (demo_env demo_names) demo_disk music_dir = Inr demo_names"
    by (rule demo_listdir)
  have "{f \<in> set demo_names. suffix ''.mp3'' f \<and> \<not> prefix ''temp_'' f} =
        set (filter eligible demo_names)"
    by (simp add: eligible_iff)
  also have "filter eligible demo_names = [''song1.mp3'', ''bad.mp3'', ''song2.mp3'']"
    by (simp add: demo_names_def demo_eligible)
  finally have "{f \<in> set demo_names. suffix ''.mp3'' f \<and> \<not> prefix ''temp_'' f} =
        {''song1.mp3'', ''bad.mp3'', ''song2.mp3''}"
    by simp
  with eligibility_filter [OF h] h show ?thesis by blast
qed

text \<open>
  C2. At the end of a run the two lists together hold every name of the listing that
  passes the filter, as often as the listing has it: the sum of their lengths is the
  number of such names. A directory lists no name twice, and then no name is in both
  lists and none is twice in one.
\<close>

theorem partition_processed_failed:
  assumes "listdir E w music_dir = Inr names"
  shows "\<exists>st. main True E w = Finished st \<and>
           mset (files_processed st) + mset (files_failed st) = mset (filter eligible names) \<and>
           length (files_processed st) + length (files_failed st) = length (filter eligible names) \<and>
           (distinct names \<longrightarrow>
              set (files_processed st) \<inter> set (files_failed st) = {} \<and>
              set (files_processed st) \<union> set (files_failed st) = set (filter eligible names) \<and>
              distinct (files_processed st) \<and> distinct (files_failed st))"
proof -
  let ?st0 = "scan E \<lparr>world = w, stdout = banner, files_processed = [], files_failed = []\<rparr> names"
  have m: "mset (files_processed ?st0 @ files_failed ?st0) = mset (filter eligible names)"
    by (simp add: scan_mset)
  then have len: "length (files_processed ?st0 @ files_failed ?st0) = length (filter eligible names)"
    by (rule mset_eq_length)
  have d: "distinct (files_processed ?st0 @ files_failed ?st0)" if "distinct names"
  proof -
    from that have "distinct (filter eligible names)" by simp
    with m show ?thesis by (metis mset_eq_imp_distinct_iff)
  qed
  have s: "set (files_processed ?st0 @ files_failed ?st0) = set (filter eligible names)"
    using m by (rule mset_eq_setD)
  show ?thesis
    using main_finishes [OF assms] m len d s by auto
qed

text \<open>The directory of the example has three names that pass and no name twice.\<close>

theorem partition_processed_failed_witness:
  "listdir (demo_env demo_names) demo_disk music_dir = Inr demo_names \<and> distinct demo_names \<and>
   (\<exists>st. main True (demo_env demo_names) demo_disk = Finished st \<and>
      length (files_processed st) + length (files_failed st) = 3 \<and>
      set (files_processed st) \<inter> set (files_failed st) = {})"
proof -
  have h: "listdir (demo_env demo_names) demo_disk music_dir = Inr demo_names"
    by (rule demo_listdir)
  have d: "distinct demo_names" by (simp add: demo_names_def)
  have f3: "length (filter eligible demo_names) = 3"
    by (simp add: demo_names_def demo_eligible)
  from partition_processed_failed [OF h] obtain st where
    st: "main True (demo_env demo_names) demo_disk = Finished st"
      "length (files_processed st) + length (files_failed st) = length (filter eligible demo_names)"
      "distinct demo_names \<longrightarrow> set (files_processed st) \<inter> set (files_failed st) = {}"
    by blast
  from st(2) f3 have "length (files_processed st) + length (files_failed st) = 3" by simp
  with st(1) st(3) d h show ?thesis by blast
qed

subsection \<open>A directory that cannot be listed\<close>

text \<open>
  C9. When listing the directory \<^verbatim>\<open>music\<close> raises, nothing catches the exception: the
  run ends with it after the two opening lines, with no summary, and the world is the
  one it started in. This end is neither the exit of the import guard nor a finished
  run with the name in the failed list.
\<close>

theorem listdir_failure_uncaught:
  assumes "listdir E w music_dir = Inl e"
  shows "main True E w =
           Uncaught e [Text ''Trimming MP3 files to 20 seconds...'', Text (replicate 50 CHR ''='')] w \<and>
         (\<forall>st. main True E w \<noteq> Finished st) \<and>
         (\<forall>status os w'. main True E w \<noteq> Exit status os w')"
  using assms by (simp add: main_def banner_def)

text \<open>The environment of the example with a directory that does not exist.\<close>

theorem listdir_failure_uncaught_witness:
  "listdir ((demo_env demo_names)\<lparr>listdir := \<lambda>w d. Inl (Exception ''No such file or directory'')\<rparr>)
     demo_disk music_dir = Inl (Exception ''No such file or directory'') \<and>
   main True ((demo_env demo_names)\<lparr>listdir := \<lambda>w d. Inl (Exception ''No such file or directory'')\<rparr>)
     demo_disk =
     Uncaught (Exception ''No such file or directory'')
       [Text ''Trimming MP3 files to 20 seconds...'', Text (replicate 50 CHR ''='')] demo_disk"
proof -
  let ?E = "(demo_env demo_names)\<lparr>listdir := \<lambda>w d. Inl (Exception ''No such file or directory'')\<rparr>"
  have h: "listdir ?E demo_disk music_dir = Inl (Exception ''No such file or directory'')"
    by simp
  from listdir_failure_uncaught [OF h] h show ?thesis by blast
qed

subsection \<open>Truncation\<close>

text \<open>
  C3. The truncated buffer is the first \<open>min (length audio) 20000\<close> milliseconds. A
  buffer of at most 20000 ms, one of exactly 20000 ms included, is returned as it is;
  the step is a total function, so it does not raise. For such a file the buffer that
  is exported is the decoded one and the new duration printed is the original one.
\<close>

theorem truncation_keeps_short_buffers:
  "trim audio = take (min (length audio) 20000) audio \<and>
   length (trim audio) = min (length audio) 20000 \<and>
   (length audio \<le> 20000 \<longrightarrow> trim audio = audio) \<and>
   (length audio \<le> 20000 \<and> from_mp3 E w p = (Inr audio, w1) \<and>
    export E w1 audio p ''mp3'' ''192k'' = (Inr (), w2) \<longrightarrow>
      fst (snd (trim_file E p w)) =
        [Original_duration (rat_of_nat (length audio) / 1000),
         New_duration (rat_of_nat (length audio) / 1000)]
        @ (case getsize E w2 p of
             Inl e \<Rightarrow> []
           | Inr sz \<Rightarrow> [New_file_size (rat_of_nat sz / 1024 / 1024),
                        Text (''  '' @ check_mark @ '' Successfully trimmed!'')]))"
proof -
  have a: "trim audio = take (min (length audio) 20000) audio"
    by (simp add: trim_def trim_duration_def min_def)
  have b: "length (trim audio) = min (length audio) 20000"
    by (rule length_trim)
  have c: "trim audio = audio" if "length audio \<le> 20000"
    using that by (simp add: trim_def trim_duration_def)
  have d: "fst (snd (trim_file E p w)) =
        [Original_duration (rat_of_nat (length audio) / 1000),
         New_duration (rat_of_nat (length audio) / 1000)]
        @ (case getsize E w2 p of
             Inl e \<Rightarrow> []
           | Inr sz \<Rightarrow> [New_file_size (rat_of_nat sz / 1024 / 1024),
                        Text (''  '' @ check_mark @ '' Successfully trimmed!'')])"
    if "length audio \<le> 20000" "from_mp3 E w p = (Inr audio, w1)"
       "export E w1 audio p ''mp3'' ''192k'' = (Inr (), w2)"
    using that c by (simp add: trim_file_def Let_def split: sum.splits)
  from a b c d show ?thesis by blast
qed

text \<open>A file of exactly 20000 ms keeps its duration of 20 seconds.\<close>

theorem truncation_keeps_short_buffers_witness:
  "length (replicate 20000 (0::nat)) \<le> 20000 \<and>
   from_mp3 (demo_env demo_names) [(''music/song2.mp3'', replicate 20000 0)] ''music/song2.mp3'' =
     (Inr (replicate 20000 0), [(''music/song2.mp3'', replicate 20000 0)]) \<and>
   export (demo_env demo_names) [(''music/song2.mp3'', replicate 20000 0)] (replicate 20000 0)
     ''music/song2.mp3'' ''mp3'' ''192k'' =
     (Inr (), [(''music/song2.mp3'', replicate 20000 0), (''music/song2.mp3'', replicate 20000 0)]) \<and>
   trim (replicate 20000 (0::nat)) = replicate 20000 0 \<and>
   fst (snd (trim_file (demo_env demo_names) ''music/song2.mp3''
               [(''music/song2.mp3'', replicate 20000 0)])) =
     [Original_duration 20, New_duration 20, New_file_size (480000 / 1024 / 1024),
      Text (''  '' @ check_mark @ '' Successfully trimmed!'')]"
proof -
  let ?a = "replicate 20000 (0::nat)"
  let ?p = "''music/song2.mp3''"
  let ?w = "[(?p, ?a)]"
  have h1: "length ?a \<le> 20000" by simp
  have h2: "from_mp3 (demo_env demo_names) ?w ?p = (Inr ?a, ?w)"
    by (simp add: demo_env_def)
  have h3: "export (demo_env demo_names) ?w ?a ?p ''mp3'' ''192k'' = (Inr (), (?p, ?a) # ?w)"
    by (simp add: demo_env_def)
  have h4: "getsize (demo_env demo_names) ((?p, ?a) # ?w) ?p = Inr 480000"
    by (simp add: demo_env_def)
  from truncation_keeps_short_buffers [of ?a "demo_env demo_names" ?w ?p ?w "(?p, ?a) # ?w"]
    h1 h2 h3 h4
  show ?thesis by simp
qed

subsection \<open>What is recorded for a file that succeeds\<close>

text \<open>
  C8, as amended. For every file processed without an exception, the lines printed are
  the original duration, the new duration (the length of the truncated buffer, in
  seconds), the new file size and the success line. The size is asked of the world
  that the export left behind, so after the overwrite, and it is recorded in units of
  1024 * 1024 bytes (the line says MB), not in bytes.
\<close>

theorem size_recorded_in_mebibytes:
  assumes "trim_file E p w = (w2, os, None)"
  shows "\<exists>a w1 sz. from_mp3 E w p = (Inr a, w1) \<and>
           export E w1 (trim a) p ''mp3'' ''192k'' = (Inr (), w2) \<and>
           getsize E w2 p = Inr sz \<and>
           os = [Original_duration (rat_of_nat (length a) / 1000),
                 New_duration (rat_of_nat (min (length a) 20000) / 1000),
                 New_file_size (rat_of_nat sz / 1024 / 1024),
                 Text (''  '' @ check_mark @ '' Successfully trimmed!'')]"
  using assms
  by (auto simp: trim_file_def Let_def length_trim split: prod.splits sum.splits)

text \<open>The 30 second song of the example.\<close>

theorem size_recorded_in_mebibytes_witness:
  "trim_file (demo_env demo_names) ''music/song1.mp3'' demo_disk =
     ((''music/song1.mp3'', replicate 20000 0) # demo_disk,
      [Original_duration 30, New_duration 20, New_file_size (480000 / 1024 / 1024),
       Text (''  '' @ check_mark @ '' Successfully trimmed!'')], None) \<and>
   (\<exists>a w1 sz. from_mp3 (demo_env demo_names) demo_disk ''music/song1.mp3'' = (Inr a, w1) \<and>
      getsize (demo_env demo_names) ((''music/song1.mp3'', replicate 20000 0) # demo_disk)
        ''music/song1.mp3'' = Inr sz \<and>
      New_file_size (480000 / 1024 / 1024) = New_file_size (rat_of_nat sz / 1024 / 1024))"
proof -
  note h = demo_trim1 [of demo_names]
  from size_recorded_in_mebibytes [OF h] h show ?thesis by auto
qed

text \<open>
  C8 as the specification states it fails on that file: the size on disk after the
  overwrite is 480000 bytes, and no line records 480000; the line records
  \<open>480000 / 1024 / 1024\<close>.
\<close>

theorem size_in_bytes_counterexample:
  "trim_file (demo_env demo_names) ''music/song1.mp3'' demo_disk =
     ((''music/song1.mp3'', replicate 20000 0) # demo_disk,
      [Original_duration 30, New_duration 20, New_file_size (480000 / 1024 / 1024),
       Text (''  '' @ check_mark @ '' Successfully trimmed!'')], None) \<and>
   getsize (demo_env demo_names) ((''music/song1.mp3'', replicate 20000 0) # demo_disk)
     ''music/song1.mp3'' = Inr 480000 \<and>
   New_file_size 480000 \<notin> set [Original_duration 30, New_duration 20,
       New_file_size (480000 / 1024 / 1024),
       Text (''  '' @ check_mark @ '' Successfully trimmed!'')]"
  by (simp add: demo_trim1) (simp add: demo_env_def)

subsection \<open>One file that fails\<close>

text \<open>
  C4. Take any point of the scan and an eligible name \<open>f\<close> there whose decoding,
  export or size query raises \<open>e\<close> (truncation cannot raise). Then this iteration
  appends \<open>f\<close> to the failed list and nothing to the processed list, its last line is
  the error line with the message of \<open>e\<close>, and the loop goes on with the rest of the
  listing from that state. At the end \<open>f\<close> is in the failed list, and every later eligible
  name whose own three calls succeed, in the world the scan has reached by then, is in
  the processed list.
\<close>

theorem failure_isolation:
  assumes el: "eligible f"
    and raises:
      "(\<exists>w1. from_mp3 E (world (scan E st xs)) (path_join music_dir f) = (Inl e, w1)) \<or>
       (\<exists>a w1 w2. from_mp3 E (world (scan E st xs)) (path_join music_dir f) = (Inr a, w1) \<and>
          export E w1 (trim a) (path_join music_dir f) ''mp3'' ''192k'' = (Inl e, w2)) \<or>
       (\<exists>a w1 w2. from_mp3 E (world (scan E st xs)) (path_join music_dir f) = (Inr a, w1) \<and>
          export E w1 (trim a) (path_join music_dir f) ''mp3'' ''192k'' = (Inr (), w2) \<and>
          getsize E w2 (path_join music_dir f) = Inl e)"
  shows "files_failed (scan E st (xs @ [f])) = files_failed (scan E st xs) @ [f] \<and>
         files_processed (scan E st (xs @ [f])) = files_processed (scan E st xs) \<and>
         last (stdout (scan E st (xs @ [f]))) = Text (''  '' @ cross_mark @ '' Error: '' @ str_exn e) \<and>
         scan E st (xs @ f # ys) = scan E (scan E st (xs @ [f])) ys \<and>
         f \<in> set (files_failed (scan E st (xs @ f # ys))) \<and>
         (\<forall>ys1 g ys2.
            ys = ys1 @ g # ys2 \<and> eligible g \<and>
            (\<exists>a w1 w2 sz.
               from_mp3 E (world (scan E st (xs @ f # ys1))) (path_join music_dir g) = (Inr a, w1) \<and>
               export E w1 (trim a) (path_join music_dir g) ''mp3'' ''192k'' = (Inr (), w2) \<and>
               getsize E w2 (path_join music_dir g) = Inr sz)
            \<longrightarrow> g \<in> set (files_processed (scan E st (xs @ f # ys))))"
proof -
  let ?s = "scan E st xs"
  have r: "snd (snd (trim_file E (path_join music_dir f) (world ?s))) = Some e"
    using raises by (simp only: trim_file_Some_iff)
  have a: "files_failed (scan E st (xs @ [f])) = files_failed ?s @ [f]"
    by (simp only: scan_snoc step_raises(1) [OF el r])
  have b: "files_processed (scan E st (xs @ [f])) = files_processed ?s"
    by (simp only: scan_snoc step_raises(2) [OF el r])
  have c: "last (stdout (scan E st (xs @ [f]))) = Text (''  '' @ cross_mark @ '' Error: '' @ str_exn e)"
    by (simp only: scan_snoc step_raises(4) [OF el r])
  have d: "scan E st (xs @ f # ys) = scan E (scan E st (xs @ [f])) ys"
    by (simp add: scan_append)
  have "f \<in> set (files_failed (scan E st (xs @ [f])))"
    by (simp add: a)
  then have e: "f \<in> set (files_failed (scan E st (xs @ f # ys)))"
    using scan_keeps_failed [of "scan E st (xs @ [f])" E ys] d by auto
  have g: "g \<in> set (files_processed (scan E st (xs @ f # ys)))"
    if ys: "ys = ys1 @ g # ys2" and elg: "eligible g"
      and ok: "\<exists>a w1 w2 sz.
               from_mp3 E (world (scan E st (xs @ f # ys1))) (path_join music_dir g) = (Inr a, w1) \<and>
               export E w1 (trim a) (path_join music_dir g) ''mp3'' ''192k'' = (Inr (), w2) \<and>
               getsize E w2 (path_join music_dir g) = Inr sz"
    for ys1 g ys2
  proof -
    let ?t = "scan E st (xs @ f # ys1)"
    have n: "snd (snd (trim_file E (path_join music_dir g) (world ?t))) = None"
      using ok by (simp only: trim_file_None_iff)
    have "files_processed (step E ?t g) = files_processed ?t @ [g]"
      by (rule step_no_exception(1) [OF elg n])
    then have "g \<in> set (files_processed (step E ?t g))" by simp
    moreover have "scan E st (xs @ f # ys) = scan E (step E ?t g) ys2"
    proof -
      have "xs @ f # ys = (xs @ f # ys1) @ g # ys2" using ys by simp
      then show ?thesis by (simp only: scan_append scan.simps)
    qed
    ultimately show ?thesis
      using scan_keeps_processed [of "step E ?t g" E ys2] by auto
  qed
  from a b c d e g show ?thesis by blast
qed

text \<open>
  In the directory of the example \<^verbatim>\<open>bad.mp3\<close> does not decode; it is recorded as failed
  and \<^verbatim>\<open>song2.mp3\<close>, listed after it, as processed.
\<close>

theorem failure_isolation_witness:
  "eligible ''bad.mp3'' \<and>
   from_mp3 (demo_env demo_names)
     (world (scan (demo_env demo_names)
        \<lparr>world = demo_disk, stdout = banner, files_processed = [], files_failed = []\<rparr>
        [''song1.mp3'']))
     (path_join music_dir ''bad.mp3'') =
     (Inl (Exception ''decoding failed''), (''music/song1.mp3'', replicate 20000 0) # demo_disk) \<and>
   ''bad.mp3'' \<in> set (files_failed (scan (demo_env demo_names)
        \<lparr>world = demo_disk, stdout = banner, files_processed = [], files_failed = []\<rparr>
        ([''song1.mp3''] @ ''bad.mp3'' # [''song2.mp3'', ''temp_draft.mp3'', ''notes.txt'']))) \<and>
   ''song2.mp3'' \<in> set (files_processed (scan (demo_env demo_names)
        \<lparr>world = demo_disk, stdout = banner, files_processed = [], files_failed = []\<rparr>
        ([''song1.mp3''] @ ''bad.mp3'' # [''song2.mp3'', ''temp_draft.mp3'', ''notes.txt''])))"
proof -
  let ?D = "demo_env demo_names"
  let ?s0 = "\<lparr>world = demo_disk, stdout = banner, files_processed = [], files_failed = []\<rparr>"
  let ?w0 = "world (scan ?D ?s0 [''song1.mp3''])"
  let ?p = "path_join music_dir ''bad.mp3''"
  let ?e = "Exception ''decoding failed''"
  let ?w1 = "(''music/song1.mp3'', replicate 20000 (0::nat)) # demo_disk"
  let ?q = "path_join music_dir ''song2.mp3''"
  let ?a2 = "replicate 10000 (0::nat)"
  have h1: "eligible ''bad.mp3''" by (rule demo_eligible)
  have h2: "from_mp3 ?D ?w0 ?p = (Inl ?e, ?w1)"
    by (simp only: scan.simps demo_step1 demo_paths) (simp add: demo_env_def demo_disk_def)
  then have "\<exists>w1. from_mp3 ?D ?w0 ?p = (Inl ?e, w1)" by blast
  then have r:
    "(\<exists>w1. from_mp3 ?D ?w0 ?p = (Inl ?e, w1)) \<or>
     (\<exists>a w1 w2. from_mp3 ?D ?w0 ?p = (Inr a, w1) \<and>
        export ?D w1 (trim a) ?p ''mp3'' ''192k'' = (Inl ?e, w2)) \<or>
     (\<exists>a w1 w2. from_mp3 ?D ?w0 ?p = (Inr a, w1) \<and>
        export ?D w1 (trim a) ?p ''mp3'' ''192k'' = (Inr (), w2) \<and> getsize ?D w2 ?p = Inl ?e)"
    by (rule disjI1)
  note T = failure_isolation [OF h1 r, of "[''song2.mp3'', ''temp_draft.mp3'', ''notes.txt'']"]
  note T5 = T [THEN conjunct2, THEN conjunct2, THEN conjunct2, THEN conjunct2, THEN conjunct1]
  note T6 = T [THEN conjunct2, THEN conjunct2, THEN conjunct2, THEN conjunct2, THEN conjunct2,
      rule_format, of "[]" "''song2.mp3''" "[''temp_draft.mp3'', ''notes.txt'']"]
  have l: "[''song1.mp3''] @ ''bad.mp3'' # [] = [''song1.mp3'', ''bad.mp3'']" by simp
  have g1: "from_mp3 ?D (world (scan ?D ?s0 ([''song1.mp3''] @ ''bad.mp3'' # []))) ?q = (Inr ?a2, ?w1)"
    by (simp only: l scan.simps demo_step1 demo_step2 demo_paths)
       (simp add: demo_env_def demo_disk_def)
  have g2: "export ?D ?w1 (trim ?a2) ?q ''mp3'' ''192k'' = (Inr (), (?q, trim ?a2) # ?w1)"
    by (simp add: demo_env_def)
  have g3: "getsize ?D ((?q, trim ?a2) # ?w1) ?q = Inr (24 * length (trim ?a2))"
    by (simp add: demo_env_def)
  have "''song2.mp3'' \<in> set (files_processed (scan ?D ?s0
          ([''song1.mp3''] @ ''bad.mp3'' # [''song2.mp3'', ''temp_draft.mp3'', ''notes.txt''])))"
    by (rule T6) (intro conjI exI, simp, rule demo_eligible, rule g1, rule g2, rule g3)
  with h1 h2 T5 show ?thesis by simp
qed

subsection \<open>When a name enters the processed list\<close>

text \<open>
  C10. For an eligible name, the iteration appends it to the processed list exactly
  when decoding, the export of the truncated buffer and the size query on the world
  after the export all return without an exception. When the size query raises after
  the export has succeeded, the name goes to the failed list, not to the processed
  list, and the world is the one the export left: the file is already overwritten.
\<close>

theorem processed_only_after_size_query:
  assumes "eligible f"
  shows "(files_processed (step E st f) = files_processed st @ [f] \<longleftrightarrow>
            (\<exists>a w1 w2 sz.
               from_mp3 E (world st) (path_join music_dir f) = (Inr a, w1) \<and>
               export E w1 (trim a) (path_join music_dir f) ''mp3'' ''192k'' = (Inr (), w2) \<and>
               getsize E w2 (path_join music_dir f) = Inr sz)) \<and>
         (\<forall>a w1 w2 e.
            from_mp3 E (world st) (path_join music_dir f) = (Inr a, w1) \<and>
            export E w1 (trim a) (path_join music_dir f) ''mp3'' ''192k'' = (Inr (), w2) \<and>
            getsize E w2 (path_join music_dir f) = Inl e
            \<longrightarrow> files_failed (step E st f) = files_failed st @ [f] \<and>
                files_processed (step E st f) = files_processed st \<and>
                world (step E st f) = w2)"
proof -
  let ?p = "path_join music_dir f"
  let ?r = "snd (snd (trim_file E ?p (world st)))"
  have 1: "files_processed (step E st f) = files_processed st @ [f] \<longleftrightarrow> ?r = None"
  proof (cases ?r)
    case None
    then show ?thesis using step_no_exception(1) [OF assms None] by simp
  next
    case (Some e)
    then show ?thesis using step_raises(2) [OF assms Some] by simp
  qed
  have 2: "files_failed (step E st f) = files_failed st @ [f] \<and>
           files_processed (step E st f) = files_processed st \<and>
           world (step E st f) = w2"
    if "from_mp3 E (world st) ?p = (Inr a, w1)"
       "export E w1 (trim a) ?p ''mp3'' ''192k'' = (Inr (), w2)"
       "getsize E w2 ?p = Inl e" for a w1 w2 e
  proof -
    have t: "trim_file E ?p (world st) =
       (w2, [Original_duration (rat_of_nat (length a) / 1000),
             New_duration (rat_of_nat (length (trim a)) / 1000)], Some e)"
      using that by (rule trim_file_getsize_raises)
    show ?thesis by (simp add: step_err [OF assms t])
  qed
  from 1 2 show ?thesis by (simp only: trim_file_None_iff) blast
qed

text \<open>The environment of the example with a size query that always raises.\<close>

theorem processed_only_after_size_query_witness:
  "eligible ''song1.mp3'' \<and>
   from_mp3 ((demo_env demo_names)\<lparr>getsize := \<lambda>w p. Inl (Exception ''Permission denied'')\<rparr>)
     demo_disk (path_join music_dir ''song1.mp3'') = (Inr (replicate 30000 0), demo_disk) \<and>
   export ((demo_env demo_names)\<lparr>getsize := \<lambda>w p. Inl (Exception ''Permission denied'')\<rparr>)
     demo_disk (trim (replicate 30000 0)) (path_join music_dir ''song1.mp3'') ''mp3'' ''192k'' =
     (Inr (), (''music/song1.mp3'', replicate 20000 0) # demo_disk) \<and>
   getsize ((demo_env demo_names)\<lparr>getsize := \<lambda>w p. Inl (Exception ''Permission denied'')\<rparr>)
     ((''music/song1.mp3'', replicate 20000 0) # demo_disk) (path_join music_dir ''song1.mp3'') =
     Inl (Exception ''Permission denied'') \<and>
   files_failed (step ((demo_env demo_names)\<lparr>getsize := \<lambda>w p. Inl (Exception ''Permission denied'')\<rparr>)
     \<lparr>world = demo_disk, stdout = banner, files_processed = [], files_failed = []\<rparr> ''song1.mp3'') =
     [''song1.mp3''] \<and>
   files_processed (step ((demo_env demo_names)\<lparr>getsize := \<lambda>w p. Inl (Exception ''Permission denied'')\<rparr>)
     \<lparr>world = demo_disk, stdout = banner, files_processed = [], files_failed = []\<rparr> ''song1.mp3'') =
     [] \<and>
   world (step ((demo_env demo_names)\<lparr>getsize := \<lambda>w p. Inl (Exception ''Permission denied'')\<rparr>)
     \<lparr>world = demo_disk, stdout = banner, files_processed = [], files_failed = []\<rparr> ''song1.mp3'') =
     (''music/song1.mp3'', replicate 20000 0) # demo_disk"
proof -
  let ?E = "(demo_env demo_names)\<lparr>getsize := \<lambda>w p. Inl (Exception ''Permission denied'')\<rparr>"
  let ?s0 = "\<lparr>world = demo_disk, stdout = banner, files_processed = [], files_failed = []\<rparr>"
  let ?p = "path_join music_dir ''song1.mp3''"
  let ?w2 = "(''music/song1.mp3'', replicate 20000 (0::nat)) # demo_disk"
  have h1: "eligible ''song1.mp3''" by (rule demo_eligible)
  have h2: "from_mp3 ?E (world ?s0) ?p = (Inr (replicate 30000 0), demo_disk)"
    by (simp add: demo_paths demo_env_def demo_disk_def)
  have h3: "export ?E demo_disk (trim (replicate 30000 0)) ?p ''mp3'' ''192k'' = (Inr (), ?w2)"
    by (simp add: demo_paths demo_env_def trim_def trim_duration_def)
  have h4: "getsize ?E ?w2 ?p = Inl (Exception ''Permission denied'')"
    by simp
  note T = processed_only_after_size_query [OF h1, of ?E ?s0, THEN conjunct2, rule_format,
      of "replicate 30000 0" demo_disk ?w2 "Exception ''Permission denied''"]
  have "files_failed (step ?E ?s0 ''song1.mp3'') = files_failed ?s0 @ [''song1.mp3''] \<and>
        files_processed (step ?E ?s0 ''song1.mp3'') = files_processed ?s0 \<and>
        world (step ?E ?s0 ''song1.mp3'') = ?w2"
    by (rule T) (intro conjI, rule h2, rule h3, rule h4)
  with h1 h2 h3 h4 show ?thesis by simp
qed

subsection \<open>A second run on a trimmed file\<close>

text \<open>
  C6. A first run decodes \<open>a\<close> and exports its truncation; a later run decodes \<open>a'\<close>
  from the same path and exports its truncation. The new duration of the first run is
  \<open>min (length a) 20000\<close> ms and that of the second \<open>min (length a') 20000\<close> ms. The
  second differs from the first by no more than the decoded duration \<open>length a'\<close>
  differs from what the first run wrote, which is what the codec changed. When the codec
  gives back the duration that was written, the two durations are equal and the second
  truncation changes nothing.
\<close>

theorem second_run_same_duration:
  assumes "from_mp3 E w p = (Inr a, w1)"
      and "export E w1 (trim a) p ''mp3'' ''192k'' = (Inr (), w2)"
      and "from_mp3 E w' p = (Inr a', w1')"
      and "export E w1' (trim a') p ''mp3'' ''192k'' = (Inr (), w2')"
  shows "\<exists>d1 d2 r1 r2.
      fst (snd (trim_file E p w)) =
        Original_duration (rat_of_nat (length a) / 1000) # New_duration d1 # r1 \<and>
      fst (snd (trim_file E p w')) =
        Original_duration (rat_of_nat (length a') / 1000) # New_duration d2 # r2 \<and>
      d1 = rat_of_nat (min (length a) 20000) / 1000 \<and>
      d2 = rat_of_nat (min (length a') 20000) / 1000 \<and>
      \<bar>d2 - d1\<bar> \<le> \<bar>rat_of_nat (length a') / 1000 - d1\<bar> \<and>
      (length a' = length (trim a) \<longrightarrow> d2 = d1 \<and> trim a' = a')"
proof -
  let ?d1 = "rat_of_nat (min (length a) 20000) / 1000"
  let ?d2 = "rat_of_nat (min (length a') 20000) / 1000"
  note o1 = trim_file_exported [OF assms(1) assms(2)]
  note o2 = trim_file_exported [OF assms(3) assms(4)]
  have 1: "\<exists>r1. fst (snd (trim_file E p w)) =
        Original_duration (rat_of_nat (length a) / 1000) # New_duration ?d1 # r1"
    using o1 by (simp add: length_trim)
  have 2: "\<exists>r2. fst (snd (trim_file E p w')) =
        Original_duration (rat_of_nat (length a') / 1000) # New_duration ?d2 # r2"
    using o2 by (simp add: length_trim)
  have 3: "\<bar>?d2 - ?d1\<bar> \<le> \<bar>rat_of_nat (length a') / 1000 - ?d1\<bar>"
    by (rule capped_distance) simp
  have 4: "?d2 = ?d1 \<and> trim a' = a'" if "length a' = length (trim a)"
  proof -
    from that have l: "length a' = min (length a) 20000" by (simp add: length_trim)
    then have "length a' \<le> 20000" by simp
    then have "trim a' = a'" by (simp add: trim_def trim_duration_def)
    moreover from l have "min (length a') 20000 = min (length a) 20000" by simp
    ultimately show ?thesis by simp
  qed
  from 1 2 3 4 show ?thesis by blast
qed

text \<open>The 30 second song of the example, trimmed twice: 20 seconds both times.\<close>

theorem second_run_same_duration_witness:
  "from_mp3 (demo_env demo_names) demo_disk ''music/song1.mp3'' =
     (Inr (replicate 30000 0), demo_disk) \<and>
   export (demo_env demo_names) demo_disk (trim (replicate 30000 0)) ''music/song1.mp3'' ''mp3'' ''192k'' =
     (Inr (), (''music/song1.mp3'', replicate 20000 0) # demo_disk) \<and>
   from_mp3 (demo_env demo_names) ((''music/song1.mp3'', replicate 20000 0) # demo_disk)
     ''music/song1.mp3'' =
     (Inr (replicate 20000 0), (''music/song1.mp3'', replicate 20000 0) # demo_disk) \<and>
   export (demo_env demo_names) ((''music/song1.mp3'', replicate 20000 0) # demo_disk)
     (trim (replicate 20000 0)) ''music/song1.mp3'' ''mp3'' ''192k'' =
     (Inr (), (''music/song1.mp3'', replicate 20000 0) # (''music/song1.mp3'', replicate 20000 0) # demo_disk) \<and>
   length (replicate 20000 (0::nat)) = length (trim (replicate 30000 (0::nat))) \<and>
   (\<exists>r1 r2.
      fst (snd (trim_file (demo_env demo_names) ''music/song1.mp3'' demo_disk)) =
        Original_duration 30 # New_duration 20 # r1 \<and>
      fst (snd (trim_file (demo_env demo_names) ''music/song1.mp3''
                  ((''music/song1.mp3'', replicate 20000 0) # demo_disk))) =
        Original_duration 20 # New_duration 20 # r2)"
proof -
  let ?D = "demo_env demo_names"
  let ?p = "''music/song1.mp3''"
  let ?w2 = "(?p, replicate 20000 (0::nat)) # demo_disk"
  have h1: "from_mp3 ?D demo_disk ?p = (Inr (replicate 30000 0), demo_disk)"
    by (simp add: demo_env_def demo_disk_def)
  have h2: "export ?D demo_disk (trim (replicate 30000 0)) ?p ''mp3'' ''192k'' = (Inr (), ?w2)"
    by (simp add: demo_env_def trim_def trim_duration_def)
  have h3: "from_mp3 ?D ?w2 ?p = (Inr (replicate 20000 0), ?w2)"
    by (simp add: demo_env_def)
  have h4: "export ?D ?w2 (trim (replicate 20000 0)) ?p ''mp3'' ''192k'' =
      (Inr (), (?p, replicate 20000 0) # ?w2)"
    by (simp add: demo_env_def trim_def trim_duration_def)
  have h5: "length (replicate 20000 (0::nat)) = length (trim (replicate 30000 (0::nat)))"
    by (simp add: trim_def trim_duration_def)
  from second_run_same_duration [OF h1 h2 h3 h4] obtain d1 d2 r1 r2 where
    o: "fst (snd (trim_file ?D ?p demo_disk)) =
          Original_duration (rat_of_nat (length (replicate 30000 (0::nat))) / 1000) # New_duration d1 # r1"
       "fst (snd (trim_file ?D ?p ?w2)) =
          Original_duration (rat_of_nat (length (replicate 20000 (0::nat))) / 1000) # New_duration d2 # r2"
       "d1 = rat_of_nat (min (length (replicate 30000 (0::nat))) 20000) / 1000"
       "d2 = rat_of_nat (min (length (replicate 20000 (0::nat))) 20000) / 1000"
    by blast
  from o(3) have "d1 = 20" by simp
  moreover from o(4) have "d2 = 20" by simp
  ultimately have
    "fst (snd (trim_file ?D ?p demo_disk)) = Original_duration 30 # New_duration 20 # r1"
    "fst (snd (trim_file ?D ?p ?w2)) = Original_duration 20 # New_duration 20 # r2"
    using o(1) o(2) by simp_all
  with h1 h2 h3 h4 h5 show ?thesis by blast
qed

subsection \<open>The summary\<close>

text \<open>
  C7. After the scan the program prints a rule, the heading, the number of processed
  names and the number of failed names, then, if the processed list is not empty, a
  heading and one line per processed name, then the same for the failed list, and the
  closing line. The names are printed in the order of their list, and each list is in
  the order of the listing, which is the order in which the scan appended them.
\<close>

theorem summary_lines:
  assumes "listdir E w music_dir = Inr names"
  shows "let st0 = scan E \<lparr>world = w, stdout = banner, files_processed = [], files_failed = []\<rparr> names
         in main True E w =
              Finished (st0\<lparr>stdout := stdout st0 @
                [Text (''\<newline>'' @ replicate 50 CHR ''=''),
                 Text ''\<newline>Summary:'',
                 Text (''  Successfully processed: '' @ str_nat (length (files_processed st0))),
                 Text (''  Failed: '' @ str_nat (length (files_failed st0)))]
                @ (if files_processed st0 = [] then []
                   else Text ''\<newline>  Trimmed files:''
                        # map (\<lambda>f. Text (''    - '' @ f)) (files_processed st0))
                @ (if files_failed st0 = [] then []
                   else Text ''\<newline>  Failed files:''
                        # map (\<lambda>f. Text (''    - '' @ f)) (files_failed st0))
                @ [Text ''\<newline>Done!'']\<rparr>) \<and>
            subseq (files_processed st0) names \<and> subseq (files_failed st0) names"
proof -
  let ?st0 = "scan E \<lparr>world = w, stdout = banner, files_processed = [], files_failed = []\<rparr> names"
  have s: "subseq (files_processed ?st0) names \<and> subseq (files_failed ?st0) names"
    using scan_extends [of E "\<lparr>world = w, stdout = banner, files_processed = [], files_failed = []\<rparr>" names]
    by auto
  have m: "main True E w = Finished (?st0\<lparr>stdout := stdout ?st0
             @ summary (files_processed ?st0) (files_failed ?st0)\<rparr>)"
    by (rule main_finishes [OF assms])
  show ?thesis
    unfolding Let_def using s m by (simp add: summary_def print_names_map)
qed

text \<open>The whole output of the run on the directory of the example.\<close>

theorem summary_lines_witness:
  "listdir (demo_env demo_names) demo_disk music_dir = Inr demo_names \<and>
   main True (demo_env demo_names) demo_disk =
     Finished
       \<lparr>world = (''music/song2.mp3'', replicate 10000 0) # (''music/song1.mp3'', replicate 20000 0) # demo_disk,
        stdout = banner @
          [Text ''\<newline>Processing: song1.mp3'', Original_duration 30, New_duration 20,
           New_file_size (480000 / 1024 / 1024),
           Text (''  '' @ check_mark @ '' Successfully trimmed!''),
           Text ''\<newline>Processing: bad.mp3'',
           Text (''  '' @ cross_mark @ '' Error: decoding failed''),
           Text ''\<newline>Processing: song2.mp3'', Original_duration 10, New_duration 10,
           New_file_size (240000 / 1024 / 1024),
           Text (''  '' @ check_mark @ '' Successfully trimmed!''),
           Text (''\<newline>'' @ replicate 50 CHR ''=''),
           Text ''\<newline>Summary:'',
           Text ''  Successfully processed: 2'',
           Text ''  Failed: 1'',
           Text ''\<newline>  Trimmed files:'',
           Text ''    - song1.mp3'',
           Text ''    - song2.mp3'',
           Text ''\<newline>  Failed files:'',
           Text ''    - bad.mp3'',
           Text ''\<newline>Done!''],
        files_processed = [''song1.mp3'', ''song2.mp3''], files_failed = [''bad.mp3'']\<rparr>"
proof -
  have h: "listdir (demo_env demo_names) demo_disk music_dir = Inr demo_names"
    by (rule demo_listdir)
  have n: "str_nat (Suc (Suc 0)) = ''2''" "str_nat (Suc 0) = ''1''"
    by (simp_all add: str_nat.simps str_digit_def)
  from summary_lines [OF h] h show ?thesis
    unfolding Let_def demo_scan by (simp add: n)
qed

end
